theory Spec2Isabelle
  imports Main "HOL-Library.Sublist"
begin

section \<open>Python values, exceptions and effects\<close>

text \<open>
  The values that \<^verbatim>\<open>response.json()\<close> hands to the program: \<^verbatim>\<open>None\<close>, booleans,
  integers, strings, lists and dictionaries (a dictionary with string keys, kept as an
  association list in which the first entry of a key holds its value). Numbers with a
  fractional part are outside the model.
\<close>

datatype json =
    JNull
  | JBool bool
  | JInt int
  | JStr string
  | JArr "json list"
  | JObj "(string \<times> json) list"

text \<open>
  An f-string is kept as the list of its pieces. A replacement field whose value is an
  \<^verbatim>\<open>int\<close> or a \<^verbatim>\<open>str\<close> attribute of the response is rendered into the literal text; a
  field whose value comes out of a decoded JSON body is kept as the value that Python's
  \<^verbatim>\<open>str()\<close> is applied to.
\<close>

datatype part = Lit string | Fmt json

type_synonym message = "part list"

text \<open>
  The exceptions: \<open>Exception\<close> with its message for the ones the program raises itself,
  and the built-in ones by class; \<open>OSError\<close> stands for that class and its subclasses and
  carries the name of the class raised.
\<close>

datatype exn =
    Exception message
  | KeyError string
  | TypeError
  | ValueError
  | AttributeError
  | JSONDecodeError
  | OverflowError
  | OSError string

type_synonym header = "(string \<times> string) list"

text \<open>What the program does to the outside world, in the order in which it does it.\<close>

datatype event =
    Print message
  | Input string
  | Post string "(string \<times> json) list"
  | Get string header
  | Sleep int

text \<open>
  A response of the HTTP library: \<open>status_code\<close>, \<open>rtext\<close> for the attribute
  \<^verbatim>\<open>.text\<close>, \<open>rjson\<close> for the result of \<^verbatim>\<open>.json()\<close> (\<open>None\<close> when the body is not JSON and
  the call raises), and \<open>iter_content\<close> for the chunks that
  \<^verbatim>\<open>.iter_content(chunk_size=8192)\<close> yields.
\<close>

record response =
  status_code :: int
  rtext :: string
  rjson :: "json option"
  iter_content :: "string list"

definition SERVICE_URL :: string where
  "SERVICE_URL = ''https://api.sedoo.fr/iagos-backend-test/v2.0/downloads''"

definition AUTH_BASE_URL :: string where
  "AUTH_BASE_URL = ''https://login.staging.envri.eu/auth/realms/envri/protocol/openid-connect''"

subsection \<open>Built-in operations the program applies to decoded values\<close>

text \<open>\<^verbatim>\<open>v[key]\<close> with a string key: only a dictionary can be subscripted that way.\<close>

definition getitem :: "json \<Rightarrow> string \<Rightarrow> exn + json" where
  "getitem v key =
     (case v of
        JObj kvs \<Rightarrow> (case map_of kvs key of None \<Rightarrow> Inl (KeyError key) | Some x \<Rightarrow> Inr x)
      | _ \<Rightarrow> Inl TypeError)"

text \<open>\<^verbatim>\<open>v.get(key)\<close>: a missing key reads as \<^verbatim>\<open>None\<close>; only a dictionary has the method.\<close>

definition dict_get :: "json \<Rightarrow> string \<Rightarrow> exn + json" where
  "dict_get v key =
     (case v of
        JObj kvs \<Rightarrow> Inr (case map_of kvs key of None \<Rightarrow> JNull | Some x \<Rightarrow> x)
      | _ \<Rightarrow> Inl AttributeError)"

text \<open>The integer a value stands for in arithmetic (\<^verbatim>\<open>bool\<close> is a subclass of \<^verbatim>\<open>int\<close>).\<close>

definition as_int :: "json \<Rightarrow> int option" where
  "as_int v =
     (case v of
        JInt n \<Rightarrow> Some n
      | JBool b \<Rightarrow> Some (if b then 1 else 0)
      | _ \<Rightarrow> None)"

text \<open>\<^verbatim>\<open>v += n\<close> for an integer \<open>n\<close>.\<close>

definition iadd :: "json \<Rightarrow> int \<Rightarrow> exn + json" where
  "iadd v n = (case as_int v of None \<Rightarrow> Inl TypeError | Some m \<Rightarrow> Inr (JInt (m + n)))"

text \<open>
  \<^verbatim>\<open>time.sleep(v)\<close>. A number is required. It is first converted to a signed 64-bit
  count of nanoseconds, which fails beyond \<open>SLEEP_MAX\<close> seconds in either direction; a
  negative duration is refused after that.
\<close>

definition SLEEP_MAX :: int where
  "SLEEP_MAX = 9223372036"

definition sleep :: "json \<Rightarrow> exn + event" where
  "sleep v =
     (case as_int v of
        None \<Rightarrow> Inl TypeError
      | Some n \<Rightarrow>
          if n < - SLEEP_MAX \<or> SLEEP_MAX < n then Inl OverflowError
          else if n < 0 then Inl ValueError
          else Inr (Sleep n))"

text \<open>\<^verbatim>\<open>str(n)\<close> for an integer: its decimal digits, with a minus sign when negative.\<close>

fun str_nat :: "nat \<Rightarrow> string" where
  "str_nat n =
     (if n < 10 then [''0123456789'' ! n]
      else str_nat (n div 10) @ [''0123456789'' ! (n mod 10)])"

declare str_nat.simps [simp del]

definition str_int :: "int \<Rightarrow> string" where
  "str_int i = (if i < 0 then CHR ''-'' # str_nat (nat (- i)) else str_nat (nat i))"

text \<open>The two non-ASCII characters of the console messages, as their UTF-8 bytes.\<close>

definition check_mark :: string where
  "check_mark = [CHR 0xE2, CHR 0x9C, CHR 0x93]"

definition hourglass :: string where
  "hourglass = [CHR 0xE2, CHR 0x8F, CHR 0xB3]"

section \<open>Manual token input\<close>

text \<open>
  \<^verbatim>\<open>getHeader\<close>, given the line the operator types at the prompt.
\<close>

definition getHeader :: "string \<Rightarrow> event list \<times> header" where
  "getHeader token =
     ([Input ''Please fill your ENVRI-ID token :''],
      [(''Authorization'', ''Bearer '' @ token), (''Accept'', ''application/octet-stream'')])"

section \<open>The OAuth2 device flow\<close>

text \<open>The POST that every pass through the polling loop starts with.\<close>

definition token_request :: "json \<Rightarrow> event" where
  "token_request device_code =
     Post (AUTH_BASE_URL @ ''/token'')
       [(''grant_type'', JStr ''urn:ietf:params:oauth:grant-type:device_code''),
        (''device_code'', device_code),
        (''client_id'', JStr ''envri-token-cli'')]"

definition is_token_request :: "event \<Rightarrow> bool" where
  "is_token_request e =
     (case e of Post url d \<Rightarrow> url = AUTH_BASE_URL @ ''/token'' | _ \<Rightarrow> False)"

text \<open>How one pass through the body of \<^verbatim>\<open>while True\<close> ends.\<close>

datatype control = Continue json | Return header | Raise exn

text \<open>
  One pass through the body of the loop of \<^verbatim>\<open>getHeaderOAuth\<close>, for the current
  \<open>interval\<close> and the response that the token request receives: the events of the pass
  and how it ends (\<open>Continue\<close> carries the interval of the next pass).
\<close>

definition poll_once :: "json \<Rightarrow> json \<Rightarrow> response \<Rightarrow> event list \<times> control" where
  "poll_once device_code interval token_response =
     (let req = token_request device_code in
      if status_code token_response = 200 then
        (case rjson token_response of
           None \<Rightarrow> ([req], Raise JSONDecodeError)
         | Some token_data \<Rightarrow>
             (case getitem token_data ''access_token'' of
                Inl e \<Rightarrow> ([req], Raise e)
              | Inr access_token \<Rightarrow>
                  (let ok = Print [Lit (check_mark @ '' Authentication successful!'')] in
                   case access_token of
                     JStr t \<Rightarrow>
                       ([req, ok],
                        Return [(''Authorization'', ''Bearer '' @ t),
                                (''Accept'', ''application/octet-stream'')])
                   | _ \<Rightarrow> ([req, ok], Raise TypeError))))
      else if status_code token_response = 400 then
        (case rjson token_response of
           None \<Rightarrow> ([req], Raise JSONDecodeError)
         | Some error_data \<Rightarrow>
             (case dict_get error_data ''error'' of
                Inl e \<Rightarrow> ([req], Raise e)
              | Inr error_type \<Rightarrow>
                  if error_type = JStr ''authorization_pending'' then
                    (let waiting = Print [Lit (hourglass @ '' Still waiting for authorization...'')] in
                     case sleep interval of
                       Inl e \<Rightarrow> ([req, waiting], Raise e)
                     | Inr s \<Rightarrow> ([req, waiting, s], Continue interval))
                  else if error_type = JStr ''slow_down'' then
                    (case iadd interval 5 of
                       Inl e \<Rightarrow> ([req], Raise e)
                     | Inr interval' \<Rightarrow>
                         (let slowing = Print [Lit (hourglass @ '' Slowing down polling to ''),
                                               Fmt interval', Lit ''s intervals...''] in
                          case sleep interval' of
                            Inl e \<Rightarrow> ([req, slowing], Raise e)
                          | Inr s \<Rightarrow> ([req, slowing, s], Continue interval')))
                  else if error_type = JStr ''expired_token'' then
                    ([req], Raise (Exception
                       [Lit ''Device code expired. Please restart the authentication process.'']))
                  else if error_type = JStr ''access_denied'' then
                    ([req], Raise (Exception [Lit ''Access denied by user.'']))
                  else
                    ([req], Raise (Exception [Lit ''Authentication error: '', Fmt error_data]))))
      else
        ([req], Raise (Exception
           [Lit (''Token request failed: '' @ str_int (status_code token_response)
                 @ '' - '' @ rtext token_response)])))"

text \<open>
  The loop itself. \<open>token_responses k\<close> is the response to the \<open>k\<close>-th token request and
  \<open>tr\<close> the events so far. The loop has no exit of its own: a run that never meets a
  \<open>Return\<close> or a \<open>Raise\<close> has the value \<open>None\<close>.
\<close>

partial_function (option) poll_loop ::
  "(nat \<Rightarrow> response) \<Rightarrow> nat \<Rightarrow> json \<Rightarrow> json \<Rightarrow> event list \<Rightarrow> (event list \<times> (exn + header)) option"
where
  "poll_loop token_responses k device_code interval tr =
     (case poll_once device_code interval (token_responses k) of
        (evs, Continue interval') \<Rightarrow>
          poll_loop token_responses (Suc k) device_code interval' (tr @ evs)
      | (evs, Return h) \<Rightarrow> Some (tr @ evs, Inr h)
      | (evs, Raise e) \<Rightarrow> Some (tr @ evs, Inl e))"

text \<open>
  The first \<open>n\<close> passes of the same loop, observed from outside: the events so far and
  either how the loop ended or, with \<open>Continue\<close>, the interval it is still polling with.
\<close>

fun poll_passes ::
  "nat \<Rightarrow> (nat \<Rightarrow> response) \<Rightarrow> nat \<Rightarrow> json \<Rightarrow> json \<Rightarrow> event list \<Rightarrow> event list \<times> control"
where
  "poll_passes 0 token_responses k device_code interval tr = (tr, Continue interval)"
| "poll_passes (Suc n) token_responses k device_code interval tr =
     (case poll_once device_code interval (token_responses k) of
        (evs, Continue interval') \<Rightarrow>
          poll_passes n token_responses (Suc k) device_code interval' (tr @ evs)
      | (evs, c) \<Rightarrow> (tr @ evs, c))"

text \<open>
  Step 1 of \<^verbatim>\<open>getHeaderOAuth\<close>, from its first line to the loop: the request to the
  device-authorization endpoint, the instructions printed for the user, and the device
  code and interval that the loop starts with.
\<close>

definition device_authorization :: "response \<Rightarrow> event list \<times> (exn + json \<times> json)" where
  "device_authorization device_response =
     (let tr0 = [Print [Lit ''Initiating OAuth2 device flow...''],
                 Post (AUTH_BASE_URL @ ''/auth/device'')
                   [(''client_id'', JStr ''envri-token-cli''),
                    (''scope'', JStr ''openid profile email entitlements'')]]
      in
      if status_code device_response \<noteq> 200 then
        (tr0, Inl (Exception
          [Lit (''Device authorization request failed: '' @ rtext device_response)]))
      else
        (case rjson device_response of
           None \<Rightarrow> (tr0, Inl JSONDecodeError)
         | Some device_data \<Rightarrow>
             (let tr1 = tr0 @ [Print [Lit (CHR 0x0A # ''Please open this URL in your browser:'')]] in
              case getitem device_data ''verification_uri_complete'' of
                Inl e \<Rightarrow> (tr1, Inl e)
              | Inr uri \<Rightarrow>
                  (let tr2 = tr1 @ [Print [Fmt uri]] in
                   case getitem device_data ''expires_in'' of
                     Inl e \<Rightarrow> (tr2, Inl e)
                   | Inr expires_in \<Rightarrow>
                       (let tr3 = tr2 @ [Print
                              [Lit (CHR 0x0A # ''Waiting for authentication... (expires in ''),
                               Fmt expires_in, Lit '' seconds)'']] in
                        case getitem device_data ''device_code'' of
                          Inl e \<Rightarrow> (tr3, Inl e)
                        | Inr device_code \<Rightarrow>
                            (case getitem device_data ''interval'' of
                               Inl e \<Rightarrow> (tr3, Inl e)
                             | Inr interval \<Rightarrow> (tr3, Inr (device_code, interval))))))))"

text \<open>
  \<^verbatim>\<open>getHeaderOAuth\<close>, given the response of the device-authorization endpoint and the
  responses of the token endpoint: step 1, then the loop.
\<close>

definition getHeaderOAuth ::
  "response \<Rightarrow> (nat \<Rightarrow> response) \<Rightarrow> (event list \<times> (exn + header)) option"
where
  "getHeaderOAuth device_response token_responses =
     (case device_authorization device_response of
        (tr, Inl e) \<Rightarrow> Some (tr, Inl e)
      | (tr, Inr (device_code, interval)) \<Rightarrow>
          poll_loop token_responses 0 device_code interval tr)"

declare poll_loop.simps [code]

section \<open>The download\<close>

text \<open>
  The \<^verbatim>\<open>for\<close> loop over the chunks, acting on the content of the file opened with mode
  \<^verbatim>\<open>"wb"\<close>: a chunk that is empty is not written.
\<close>

fun write_chunks :: "string \<Rightarrow> string list \<Rightarrow> string" where
  "write_chunks f [] = f"
| "write_chunks f (chunk # chunks) =
     write_chunks (if chunk \<noteq> [] then f @ chunk else f) chunks"

text \<open>
  What is outside the program when \<^verbatim>\<open>downloadOneFlight\<close> runs: the line the operator would
  type, the responses of the identity provider, the response of the resource server, and
  the answer of the operating system when a path is opened for writing, which is an
  \<open>OSError\<close> (no such directory, name too long, no permission) or the file that the
  path designates. Files are numbered, since several paths can designate one file.
\<close>

record world =
  typed :: string
  device_reply :: response
  token_replies :: "nat \<Rightarrow> response"
  service_reply :: response
  open_wb :: "string \<Rightarrow> exn + nat"

text \<open>
  \<^verbatim>\<open>open(path, "wb")\<close>: a path with a NUL character is refused before the operating
  system is asked.
\<close>

definition open_for_writing :: "world \<Rightarrow> string \<Rightarrow> exn + nat" where
  "open_for_writing w path =
     (if CHR 0x00 \<in> set path then Inl ValueError else open_wb w path)"

text \<open>
  \<^verbatim>\<open>downloadOneFlight\<close>: \<open>files\<close> maps each file to its content. Opening a path for
  writing can raise, and the exception leaves the function; otherwise the file starts
  from the empty content and receives the chunks. The chunks are taken as received and
  the writes to the opened file as done.
\<close>

definition downloadOneFlight ::
  "string \<Rightarrow> string \<Rightarrow> bool \<Rightarrow> world \<Rightarrow> (nat \<rightharpoonup> string)
     \<Rightarrow> (event list \<times> (nat \<rightharpoonup> string) \<times> (exn + unit)) option"
where
  "downloadOneFlight flight output_dir use_oauth w files =
     (case (if use_oauth then getHeaderOAuth (device_reply w) (token_replies w)
            else (case getHeader (typed w) of (evs, h) \<Rightarrow> Some (evs, Inr h))) of
        None \<Rightarrow> None
      | Some (tr, Inl e) \<Rightarrow> Some (tr, files, Inl e)
      | Some (tr, Inr headers) \<Rightarrow>
          (let response = service_reply w;
               tr1 = tr @ [Get (SERVICE_URL @ ''/'' @ flight
                                @ ''?level=2&format=netcdf&type=timeseries'') headers];
               output_file = output_dir @ ''/'' @ flight @ ''.nc''
           in
           if status_code response = 200 then
             (case open_for_writing w output_file of
                Inl e \<Rightarrow> Some (tr1, files, Inl e)
              | Inr f \<Rightarrow>
                  Some (tr1 @ [Print [Lit (''File downloaded : '' @ output_file)]],
                        files(f \<mapsto> write_chunks [] (iter_content response)),
                        Inr ()))
           else
             Some (tr1 @ [Print [Lit (''Error '' @ str_int (status_code response)
                                      @ '': '' @ rtext response)]],
                   files,
                   Inr ())))"

section \<open>Scenario data\<close>

text \<open>The responses of the scenarios that the properties below are run on.\<close>

definition device_ok :: response where
  "device_ok =
     \<lparr>status_code = 200, rtext = [],
      rjson = Some (JObj [(''device_code'', JStr ''abc''), (''interval'', JInt 5),
                          (''expires_in'', JInt 600),
                          (''verification_uri_complete'', JStr ''https://x'')]),
      iter_content = []\<rparr>"

definition token_400 :: "(string \<times> json) list \<Rightarrow> response" where
  "token_400 body =
     \<lparr>status_code = 400, rtext = [], rjson = Some (JObj body), iter_content = []\<rparr>"


definition always :: "response \<Rightarrow> nat \<Rightarrow> response" where
  "always r k = r"

definition token_ok :: response where
  "token_ok =
     \<lparr>status_code = 200, rtext = [], rjson = Some (JObj [(''access_token'', JStr ''tok123'')]),
      iter_content = []\<rparr>"

section \<open>One pass of the polling loop, branch by branch\<close>

lemma poll_once_200:
  assumes "status_code r = 200" and "rjson r = Some (JObj d)"
    and "map_of d ''access_token'' = Some (JStr t)"
  shows "poll_once dc iv r =
           ([token_request dc, Print [Lit (check_mark @ '' Authentication successful!'')]],
            Return [(''Authorization'', ''Bearer '' @ t), (''Accept'', ''application/octet-stream'')])"
  using assms by (simp add: poll_once_def getitem_def)

lemma poll_once_pending:
  assumes "status_code r = 400" and "rjson r = Some (JObj d)"
    and "map_of d ''error'' = Some (JStr ''authorization_pending'')"
    and "as_int iv = Some s" and "0 \<le> s" and "s \<le> SLEEP_MAX"
  shows "poll_once dc iv r =
           ([token_request dc, Print [Lit (hourglass @ '' Still waiting for authorization...'')],
             Sleep s], Continue iv)"
  using assms by (simp add: poll_once_def dict_get_def sleep_def)


lemma poll_once_expired:
  assumes "status_code r = 400" and "rjson r = Some (JObj d)"
    and "map_of d ''error'' = Some (JStr ''expired_token'')"
  shows "poll_once dc iv r =
           ([token_request dc], Raise (Exception
              [Lit ''Device code expired. Please restart the authentication process.'']))"
  using assms by (simp add: poll_once_def dict_get_def)

lemma poll_once_denied:
  assumes "status_code r = 400" and "rjson r = Some (JObj d)"
    and "map_of d ''error'' = Some (JStr ''access_denied'')"
  shows "poll_once dc iv r =
           ([token_request dc], Raise (Exception [Lit ''Access denied by user.'']))"
  using assms by (simp add: poll_once_def dict_get_def)

lemma poll_once_other:
  assumes "status_code r = 400" and "rjson r = Some (JObj d)"
    and "dict_get (JObj d) ''error'' = Inr v"
    and "v \<noteq> JStr ''authorization_pending''" and "v \<noteq> JStr ''slow_down''"
    and "v \<noteq> JStr ''expired_token''" and "v \<noteq> JStr ''access_denied''"
  shows "poll_once dc iv r =
           ([token_request dc], Raise (Exception [Lit ''Authentication error: '', Fmt (JObj d)]))"
  using assms by (simp add: poll_once_def)


lemma poll_loop_Continue:
  "poll_once dc iv (srv k) = (evs, Continue iv') \<Longrightarrow>
     poll_loop srv k dc iv tr = poll_loop srv (Suc k) dc iv' (tr @ evs)"
  by (subst poll_loop.simps) simp

lemma poll_loop_Return:
  "poll_once dc iv (srv k) = (evs, Return h) \<Longrightarrow>
     poll_loop srv k dc iv tr = Some (tr @ evs, Inr h)"
  by (subst poll_loop.simps) simp

lemma poll_loop_Raise:
  "poll_once dc iv (srv k) = (evs, Raise e) \<Longrightarrow>
     poll_loop srv k dc iv tr = Some (tr @ evs, Inl e)"
  by (subst poll_loop.simps) simp

lemma poll_passes_Continue:
  "poll_passes n srv k dc iv tr = (tr', Continue iv') \<Longrightarrow>
     poll_loop srv k dc iv tr = poll_loop srv (k + n) dc iv' tr'"
proof (induction n arbitrary: k iv tr)
  case 0
  then show ?case by simp
next
  case (Suc n)
  obtain evs c where step: "poll_once dc iv (srv k) = (evs, c)"
    by (cases "poll_once dc iv (srv k)")
  show ?case
  proof (cases c)
    case (Continue iv1)
    with step Suc.prems have "poll_passes n srv (Suc k) dc iv1 (tr @ evs) = (tr', Continue iv')"
      by simp
    then have "poll_loop srv (Suc k) dc iv1 (tr @ evs) = poll_loop srv (Suc k + n) dc iv' tr'"
      by (rule Suc.IH)
    with step Continue show ?thesis
      by (simp add: poll_loop_Continue)
  next
    case (Return h)
    with step Suc.prems show ?thesis by simp
  next
    case (Raise e)
    with step Suc.prems show ?thesis by simp
  qed
qed



section \<open>Runs of several passes\<close>








text \<open>
  When step 1 has succeeded and the loop is still polling after \<open>k\<close> passes, the run of
  \<open>getHeaderOAuth\<close> is the run of the loop from there.
\<close>


lemma getHeaderOAuth_polling:
  assumes "device_authorization dr = (first_tr, Inr (dc, first_iv))"
    and "poll_passes k srv 0 dc first_iv first_tr = (tr, Continue iv)"
  shows "getHeaderOAuth dr srv = poll_loop srv k dc iv tr"
  using poll_passes_Continue [OF assms(2)] assms(1) by (simp add: getHeaderOAuth_def)

section \<open>Writing the chunks\<close>

lemma write_chunks_concat: "write_chunks f chunks = f @ concat (filter (\<lambda>c. c \<noteq> []) chunks)"
  by (induction chunks arbitrary: f) simp_all

lemma concat_nonempty_chunks: "concat (filter (\<lambda>c. c \<noteq> []) chunks) = concat chunks"
  by (induction chunks) simp_all

section \<open>Manual token input: the header\<close>

text \<open>
  C9. For every string \<open>t\<close> that the operator enters, \<open>getHeader\<close> returns the mapping
  with \<open>Authorization\<close> set to \<open>Bearer\<close> followed by \<open>t\<close> and \<open>Accept\<close> set to
  \<open>application/octet-stream\<close>. The string is not inspected, and the result type of
  \<open>getHeader\<close> has no error: the only event is the prompt.
\<close>

theorem getHeader_bearer:
  "getHeader t =
     ([Input ''Please fill your ENVRI-ID token :''],
      [(''Authorization'', ''Bearer '' @ t), (''Accept'', ''application/octet-stream'')])"
  by (simp add: getHeader_def)

section \<open>The device flow: terminal responses\<close>

text \<open>
  C1. Whenever the token endpoint answers a token request with status 200 and a JSON
  object whose field \<open>access_token\<close> is the string \<open>t\<close>, the polling loop ends there, at
  whatever pass and with whatever interval, and returns the mapping with
  \<open>Authorization\<close> set to \<open>Bearer\<close> followed by \<open>t\<close> and \<open>Accept\<close> set to
  \<open>application/octet-stream\<close>; and a run of \<open>getHeaderOAuth\<close> whose loop is still
  polling when that answer arrives returns this mapping.
\<close>

theorem token_200_returns_bearer_header:
  assumes "status_code (token_responses k) = 200"
    and "rjson (token_responses k) = Some (JObj token_data)"
    and "map_of token_data ''access_token'' = Some (JStr t)"
  shows "poll_loop token_responses k device_code interval tr =
           Some (tr @ [token_request device_code,
                       Print [Lit (check_mark @ '' Authentication successful!'')]],
                 Inr [(''Authorization'', ''Bearer '' @ t),
                      (''Accept'', ''application/octet-stream'')])
       \<and> (device_authorization device_response = (first_tr, Inr (device_code, first_interval))
            \<and> poll_passes k token_responses 0 device_code first_interval first_tr = (tr, Continue interval)
          \<longrightarrow>
          getHeaderOAuth device_response token_responses =
           Some (tr @ [token_request device_code,
                       Print [Lit (check_mark @ '' Authentication successful!'')]],
                 Inr [(''Authorization'', ''Bearer '' @ t),
                      (''Accept'', ''application/octet-stream'')]))"
proof -
  have "poll_loop token_responses k device_code interval tr =
           Some (tr @ [token_request device_code,
                       Print [Lit (check_mark @ '' Authentication successful!'')]],
                 Inr [(''Authorization'', ''Bearer '' @ t),
                      (''Accept'', ''application/octet-stream'')])"
    using assms by (intro poll_loop_Return poll_once_200)
  then show ?thesis
    by (auto dest: getHeaderOAuth_polling)
qed

text \<open>
  The scenario of the specification: the device endpoint answers with device code
  \<open>abc\<close> and interval 5, the token endpoint first with \<open>authorization_pending\<close> and
  then with the token \<open>tok123\<close>. \<open>getHeaderOAuth\<close> sleeps 5 seconds once and returns the
  header.
\<close>

theorem token_200_returns_bearer_header_witness:
  "getHeaderOAuth device_ok
     (\<lambda>k. if k = 0 then token_400 [(''error'', JStr ''authorization_pending'')] else token_ok) =
   Some ([Print [Lit ''Initiating OAuth2 device flow...''],
          Post (AUTH_BASE_URL @ ''/auth/device'')
            [(''client_id'', JStr ''envri-token-cli''),
             (''scope'', JStr ''openid profile email entitlements'')],
          Print [Lit (CHR 0x0A # ''Please open this URL in your browser:'')],
          Print [Fmt (JStr ''https://x'')],
          Print [Lit (CHR 0x0A # ''Waiting for authentication... (expires in ''),
                 Fmt (JInt 600), Lit '' seconds)''],
          token_request (JStr ''abc''),
          Print [Lit (hourglass @ '' Still waiting for authorization...'')],
          Sleep 5,
          token_request (JStr ''abc''),
          Print [Lit (check_mark @ '' Authentication successful!'')]],
         Inr [(''Authorization'', ''Bearer tok123''),
              (''Accept'', ''application/octet-stream'')])"
proof -
  let ?srv = "\<lambda>k::nat. if k = 0 then token_400 [(''error'', JStr ''authorization_pending'')]
                else token_ok"
  have first: "poll_once (JStr ''abc'') (JInt 5) (?srv 0) =
                 ([token_request (JStr ''abc''),
                   Print [Lit (hourglass @ '' Still waiting for authorization...'')],
                   Sleep 5], Continue (JInt 5))"
    by (rule poll_once_pending [where d = "[(''error'', JStr ''authorization_pending'')]"])
       (simp_all add: token_400_def as_int_def SLEEP_MAX_def)
  show ?thesis
    using token_200_returns_bearer_header
            [where token_responses = ?srv and k = "Suc 0"
               and token_data = "[(''access_token'', JStr ''tok123'')]" and t = "''tok123''"
               and device_response = device_ok and device_code = "JStr ''abc''"
               and first_interval = "JInt 5" and interval = "JInt 5"
               and first_tr = "[Print [Lit ''Initiating OAuth2 device flow...''],
                           Post (AUTH_BASE_URL @ ''/auth/device'')
                             [(''client_id'', JStr ''envri-token-cli''),
                              (''scope'', JStr ''openid profile email entitlements'')],
                           Print [Lit (CHR 0x0A # ''Please open this URL in your browser:'')],
                           Print [Fmt (JStr ''https://x'')],
                           Print [Lit (CHR 0x0A # ''Waiting for authentication... (expires in ''),
                                  Fmt (JInt 600), Lit '' seconds)'']]"
               and tr = "[Print [Lit ''Initiating OAuth2 device flow...''],
                          Post (AUTH_BASE_URL @ ''/auth/device'')
                            [(''client_id'', JStr ''envri-token-cli''),
                             (''scope'', JStr ''openid profile email entitlements'')],
                          Print [Lit (CHR 0x0A # ''Please open this URL in your browser:'')],
                          Print [Fmt (JStr ''https://x'')],
                          Print [Lit (CHR 0x0A # ''Waiting for authentication... (expires in ''),
                                 Fmt (JInt 600), Lit '' seconds)''],
                          token_request (JStr ''abc''),
                          Print [Lit (hourglass @ '' Still waiting for authorization...'')],
                          Sleep 5]"]
          first
    by (simp add: device_authorization_def device_ok_def getitem_def token_ok_def)
qed

text \<open>
  C4. Whenever the device-authorization endpoint answers with a status other than 200,
  \<open>getHeaderOAuth\<close> raises at once: the exception carries the text of the response, and
  the only request made is the one to the device-authorization endpoint, so no token
  request is ever issued.
\<close>

theorem device_authorization_failure_raises:
  assumes "status_code device_response \<noteq> 200"
  shows "\<exists>tr. getHeaderOAuth device_response token_responses =
                Some (tr, Inl (Exception
                  [Lit (''Device authorization request failed: '' @ rtext device_response)]))
              \<and> tr = [Print [Lit ''Initiating OAuth2 device flow...''],
                      Post (AUTH_BASE_URL @ ''/auth/device'')
                        [(''client_id'', JStr ''envri-token-cli''),
                         (''scope'', JStr ''openid profile email entitlements'')]]
              \<and> filter is_token_request tr = []"
  using assms
  by (simp add: getHeaderOAuth_def device_authorization_def is_token_request_def
        AUTH_BASE_URL_def)

theorem device_authorization_failure_raises_witness:
  "status_code (device_ok\<lparr>status_code := 503, rtext := ''unavailable''\<rparr>) \<noteq> 200
   \<and> getHeaderOAuth (device_ok\<lparr>status_code := 503, rtext := ''unavailable''\<rparr>) (\<lambda>k. token_ok) =
       Some ([Print [Lit ''Initiating OAuth2 device flow...''],
              Post (AUTH_BASE_URL @ ''/auth/device'')
                [(''client_id'', JStr ''envri-token-cli''),
                 (''scope'', JStr ''openid profile email entitlements'')]],
             Inl (Exception [Lit ''Device authorization request failed: unavailable'']))"
  using device_authorization_failure_raises
          [of "device_ok\<lparr>status_code := 503, rtext := ''unavailable''\<rparr>" "\<lambda>k. token_ok"]
  by (simp add: device_ok_def)

text \<open>
  C5. A 400 response whose \<open>error\<close> field is \<open>expired_token\<close>, and likewise one whose
  field is \<open>access_denied\<close>, ends the loop with an exception at once: the pass holds
  the token request that received the response and nothing else, so no sleep and no
  further request. The two messages differ; the first contains \<open>expired\<close> and the
  second \<open>denied\<close>.
\<close>

theorem expired_and_denied_raise_at_once:
  assumes "status_code (token_responses k) = 400"
    and "rjson (token_responses k) = Some (JObj error_data)"
  shows "(map_of error_data ''error'' = Some (JStr ''expired_token'') \<longrightarrow>
            poll_loop token_responses k device_code interval tr =
              Some (tr @ [token_request device_code],
                    Inl (Exception
                      [Lit ''Device code expired. Please restart the authentication process.''])))
       \<and> (map_of error_data ''error'' = Some (JStr ''access_denied'') \<longrightarrow>
            poll_loop token_responses k device_code interval tr =
              Some (tr @ [token_request device_code],
                    Inl (Exception [Lit ''Access denied by user.''])))
       \<and> Exception [Lit ''Device code expired. Please restart the authentication process.'']
           \<noteq> Exception [Lit ''Access denied by user.'']
       \<and> sublist ''expired'' ''Device code expired. Please restart the authentication process.''
       \<and> sublist ''denied'' ''Access denied by user.''"
proof -
  have "sublist ''expired'' (''Device code '' @ ''expired'' @ ''. Please restart the authentication process.'')"
    by (rule sublist_appendI)
  moreover have "sublist ''denied'' (''Access '' @ ''denied'' @ '' by user.'')"
    by (rule sublist_appendI)
  ultimately show ?thesis
    using assms by (auto intro!: poll_loop_Raise poll_once_expired poll_once_denied)
qed

theorem expired_and_denied_raise_at_once_witness:
  "poll_loop (\<lambda>k. token_400 [(''error'', JStr ''expired_token'')]) 0 (JStr ''abc'') (JInt 5) [] =
     Some ([token_request (JStr ''abc'')],
           Inl (Exception
             [Lit ''Device code expired. Please restart the authentication process.'']))
   \<and> poll_loop (\<lambda>k. token_400 [(''error'', JStr ''access_denied'')]) 0 (JStr ''abc'') (JInt 5) [] =
     Some ([token_request (JStr ''abc'')], Inl (Exception [Lit ''Access denied by user.'']))"
  using expired_and_denied_raise_at_once
          [where token_responses = "\<lambda>k. token_400 [(''error'', JStr ''expired_token'')]" and k = 0
             and error_data = "[(''error'', JStr ''expired_token'')]"
             and device_code = "JStr ''abc''" and interval = "JInt 5" and tr = "[]"]
        expired_and_denied_raise_at_once
          [where token_responses = "\<lambda>k. token_400 [(''error'', JStr ''access_denied'')]" and k = 0
             and error_data = "[(''error'', JStr ''access_denied'')]"
             and device_code = "JStr ''abc''" and interval = "JInt 5" and tr = "[]"]
  by (simp add: token_400_def)

text \<open>
  C10. A 400 response whose JSON object has no \<open>error\<close> field is not retried: the
  field reads as \<^verbatim>\<open>None\<close>, no branch of the chain matches it, and the loop ends with
  the exception of the last branch, which carries the decoded body; a run of
  \<open>getHeaderOAuth\<close> whose loop is still polling when that answer arrives raises this
  exception. A response whose \<open>error\<close> field holds a value other than the four
  recognised strings ends the loop in the same way.
\<close>

theorem missing_error_field_raises:
  assumes "status_code (token_responses k) = 400"
    and "rjson (token_responses k) = Some (JObj error_data)"
    and "map_of error_data ''error'' = None"
  shows "dict_get (JObj error_data) ''error'' = Inr JNull
       \<and> poll_loop token_responses k device_code interval tr =
           Some (tr @ [token_request device_code],
                 Inl (Exception [Lit ''Authentication error: '', Fmt (JObj error_data)]))
       \<and> (device_authorization device_response = (first_tr, Inr (device_code, first_interval))
            \<and> poll_passes k token_responses 0 device_code first_interval first_tr
                = (tr, Continue interval)
          \<longrightarrow>
          getHeaderOAuth device_response token_responses =
           Some (tr @ [token_request device_code],
                 Inl (Exception [Lit ''Authentication error: '', Fmt (JObj error_data)])))
       \<and> (status_code (token_responses j) = 400
            \<and> rjson (token_responses j) = Some (JObj other_data)
            \<and> map_of other_data ''error'' = Some v
            \<and> v \<noteq> JStr ''authorization_pending'' \<and> v \<noteq> JStr ''slow_down''
            \<and> v \<noteq> JStr ''expired_token'' \<and> v \<noteq> JStr ''access_denied'' \<longrightarrow>
          poll_loop token_responses j device_code interval tr =
            Some (tr @ [token_request device_code],
                  Inl (Exception [Lit ''Authentication error: '', Fmt (JObj other_data)])))"
proof -
  have none: "dict_get (JObj error_data) ''error'' = Inr JNull"
    using assms(3) by (simp add: dict_get_def)
  have "poll_once device_code interval (token_responses k) =
          ([token_request device_code],
           Raise (Exception [Lit ''Authentication error: '', Fmt (JObj error_data)]))"
    using assms(1,2) none by (rule poll_once_other) simp_all
  then have missing: "poll_loop token_responses k device_code interval tr =
      Some (tr @ [token_request device_code],
            Inl (Exception [Lit ''Authentication error: '', Fmt (JObj error_data)]))"
    by (rule poll_loop_Raise)
  have flow: "getHeaderOAuth device_response token_responses =
      Some (tr @ [token_request device_code],
            Inl (Exception [Lit ''Authentication error: '', Fmt (JObj error_data)]))"
    if "device_authorization device_response = (first_tr, Inr (device_code, first_interval))"
      and "poll_passes k token_responses 0 device_code first_interval first_tr
            = (tr, Continue interval)"
    using getHeaderOAuth_polling [OF that] missing by simp
  have other: "poll_loop token_responses j device_code interval tr =
      Some (tr @ [token_request device_code],
            Inl (Exception [Lit ''Authentication error: '', Fmt (JObj other_data)]))"
    if "status_code (token_responses j) = 400"
      and "rjson (token_responses j) = Some (JObj other_data)"
      and "map_of other_data ''error'' = Some v"
      and "v \<noteq> JStr ''authorization_pending''" and "v \<noteq> JStr ''slow_down''"
      and "v \<noteq> JStr ''expired_token''" and "v \<noteq> JStr ''access_denied''"
  proof -
    have "dict_get (JObj other_data) ''error'' = Inr v"
      using that(3) by (simp add: dict_get_def)
    with that(1,2) have "poll_once device_code interval (token_responses j) =
          ([token_request device_code],
           Raise (Exception [Lit ''Authentication error: '', Fmt (JObj other_data)]))"
      using that(4-7) by (rule poll_once_other)
    then show ?thesis by (rule poll_loop_Raise)
  qed
  from none missing flow other show ?thesis by blast
qed

text \<open>
  A device flow whose first token request is answered with status 400 and the body
  \<open>{"detail": "bad"}\<close>, and a loop that meets \<open>{"error": "invalid_grant"}\<close>.
\<close>

theorem missing_error_field_raises_witness:
  "getHeaderOAuth device_ok
     (\<lambda>k. if k = 0 then token_400 [(''detail'', JStr ''bad'')]
           else token_400 [(''error'', JStr ''invalid_grant'')]) =
     Some ([Print [Lit ''Initiating OAuth2 device flow...''],
            Post (AUTH_BASE_URL @ ''/auth/device'')
              [(''client_id'', JStr ''envri-token-cli''),
               (''scope'', JStr ''openid profile email entitlements'')],
            Print [Lit (CHR 0x0A # ''Please open this URL in your browser:'')],
            Print [Fmt (JStr ''https://x'')],
            Print [Lit (CHR 0x0A # ''Waiting for authentication... (expires in ''),
                   Fmt (JInt 600), Lit '' seconds)''],
            token_request (JStr ''abc'')],
           Inl (Exception [Lit ''Authentication error: '', Fmt (JObj [(''detail'', JStr ''bad'')])]))
   \<and> poll_loop (\<lambda>k. if k = 0 then token_400 [(''detail'', JStr ''bad'')]
                    else token_400 [(''error'', JStr ''invalid_grant'')])
       1 (JStr ''abc'') (JInt 5) [] =
     Some ([token_request (JStr ''abc'')],
           Inl (Exception [Lit ''Authentication error: '',
                           Fmt (JObj [(''error'', JStr ''invalid_grant'')])]))"
proof -
  let ?srv = "\<lambda>k::nat. if k = 0 then token_400 [(''detail'', JStr ''bad'')]
                else token_400 [(''error'', JStr ''invalid_grant'')]"
  let ?intro = "[Print [Lit ''Initiating OAuth2 device flow...''],
                 Post (AUTH_BASE_URL @ ''/auth/device'')
                   [(''client_id'', JStr ''envri-token-cli''),
                    (''scope'', JStr ''openid profile email entitlements'')],
                 Print [Lit (CHR 0x0A # ''Please open this URL in your browser:'')],
                 Print [Fmt (JStr ''https://x'')],
                 Print [Lit (CHR 0x0A # ''Waiting for authentication... (expires in ''),
                        Fmt (JInt 600), Lit '' seconds)'']]"
  from missing_error_field_raises
          [where token_responses = ?srv
             and k = 0 and error_data = "[(''detail'', JStr ''bad'')]"
             and device_response = device_ok and first_tr = ?intro
             and first_interval = "JInt 5"
             and j = 1 and other_data = "[(''error'', JStr ''invalid_grant'')]"
             and v = "JStr ''invalid_grant''"
             and device_code = "JStr ''abc''" and interval = "JInt 5" and tr = ?intro]
  have "getHeaderOAuth device_ok ?srv =
          Some (?intro @ [token_request (JStr ''abc'')],
                Inl (Exception [Lit ''Authentication error: '',
                                Fmt (JObj [(''detail'', JStr ''bad'')])]))"
    by (simp add: token_400_def device_authorization_def device_ok_def getitem_def)
  moreover
  from missing_error_field_raises
          [where token_responses = ?srv
             and k = 0 and error_data = "[(''detail'', JStr ''bad'')]"
             and j = 1 and other_data = "[(''error'', JStr ''invalid_grant'')]"
             and v = "JStr ''invalid_grant''"
             and device_code = "JStr ''abc''" and interval = "JInt 5" and tr = "[]"]
  have "poll_loop ?srv 1 (JStr ''abc'') (JInt 5) [] =
          Some ([token_request (JStr ''abc'')],
                Inl (Exception [Lit ''Authentication error: '',
                                Fmt (JObj [(''error'', JStr ''invalid_grant'')])]))"
    by (simp add: token_400_def)
  ultimately show ?thesis by simp
qed

section \<open>The device flow: responses that keep the loop polling\<close>







section \<open>The device flow: no bound on the loop\<close>




section \<open>The download: the file and the console\<close>

text \<open>
  C6, as stated, fails: with an output directory that does not exist, opening the file
  raises; the exception leaves \<open>downloadOneFlight\<close> after the GET, although the answer
  had status 200, and no file holds the body.
\<close>

theorem download_200_counterexample:
  "downloadOneFlight ''F1'' ''/no/such/dir'' False
     \<lparr>typed = ''tok123'', device_reply = device_ok, token_replies = always token_ok,
      service_reply = \<lparr>status_code = 200, rtext = ''NCDATA'', rjson = None,
                        iter_content = [''NCDATA'']\<rparr>,
      open_wb = (\<lambda>path. Inl (OSError ''FileNotFoundError''))\<rparr>
     Map.empty =
     Some ([Input ''Please fill your ENVRI-ID token :'',
            Get (SERVICE_URL @ ''/F1?level=2&format=netcdf&type=timeseries'')
              [(''Authorization'', ''Bearer tok123''), (''Accept'', ''application/octet-stream'')]],
           Map.empty,
           Inl (OSError ''FileNotFoundError''))"
  by (simp add: downloadOneFlight_def getHeader_def open_for_writing_def)

text \<open>
  C6, amended. For every flight and output directory such that the path made of the
  output directory, a slash, the flight and \<open>.nc\<close> has no NUL character and the operating
  system opens it for writing, when the resource server answers the GET with status 200,
  \<open>downloadOneFlight\<close> leaves in the file that the path designates the concatenation of
  the chunks that are not empty, which is the concatenation of all the chunks, the body
  of the response, and no other file is touched. This holds with the token typed by the
  operator, and with the device flow whenever that flow returns a header. When opening
  the path raises, that exception leaves \<open>downloadOneFlight\<close> and the files are as before.
\<close>

theorem download_200_writes_body:
  assumes "status_code (service_reply w) = 200"
  shows "(CHR 0x00 \<notin> set (output_dir @ ''/'' @ flight @ ''.nc'')
            \<and> open_wb w (output_dir @ ''/'' @ flight @ ''.nc'') = Inr f \<longrightarrow>
          downloadOneFlight flight output_dir False w files =
           Some ([Input ''Please fill your ENVRI-ID token :'',
                  Get (SERVICE_URL @ ''/'' @ flight @ ''?level=2&format=netcdf&type=timeseries'')
                    [(''Authorization'', ''Bearer '' @ typed w),
                     (''Accept'', ''application/octet-stream'')],
                  Print [Lit (''File downloaded : '' @ output_dir @ ''/'' @ flight @ ''.nc'')]],
                 files(f \<mapsto> concat (filter (\<lambda>c. c \<noteq> []) (iter_content (service_reply w)))),
                 Inr ()))
       \<and> (CHR 0x00 \<notin> set (output_dir @ ''/'' @ flight @ ''.nc'')
            \<and> open_wb w (output_dir @ ''/'' @ flight @ ''.nc'') = Inr f
            \<and> getHeaderOAuth (device_reply w) (token_replies w) = Some (tr, Inr headers) \<longrightarrow>
          downloadOneFlight flight output_dir True w files =
           Some (tr @ [Get (SERVICE_URL @ ''/'' @ flight
                            @ ''?level=2&format=netcdf&type=timeseries'') headers,
                       Print [Lit (''File downloaded : '' @ output_dir @ ''/'' @ flight @ ''.nc'')]],
                 files(f \<mapsto> concat (filter (\<lambda>c. c \<noteq> []) (iter_content (service_reply w)))),
                 Inr ()))
       \<and> concat (filter (\<lambda>c. c \<noteq> []) (iter_content (service_reply w))) =
           concat (iter_content (service_reply w))
       \<and> (open_for_writing w (output_dir @ ''/'' @ flight @ ''.nc'') = Inl e \<longrightarrow>
          downloadOneFlight flight output_dir False w files =
           Some ([Input ''Please fill your ENVRI-ID token :'',
                  Get (SERVICE_URL @ ''/'' @ flight @ ''?level=2&format=netcdf&type=timeseries'')
                    [(''Authorization'', ''Bearer '' @ typed w),
                     (''Accept'', ''application/octet-stream'')]],
                 files,
                 Inl e))
       \<and> (open_for_writing w (output_dir @ ''/'' @ flight @ ''.nc'') = Inl e
            \<and> getHeaderOAuth (device_reply w) (token_replies w) = Some (tr, Inr headers) \<longrightarrow>
          downloadOneFlight flight output_dir True w files =
           Some (tr @ [Get (SERVICE_URL @ ''/'' @ flight
                            @ ''?level=2&format=netcdf&type=timeseries'') headers],
                 files,
                 Inl e))"
  using assms
  by (simp add: downloadOneFlight_def getHeader_def Let_def open_for_writing_def
        write_chunks_concat concat_nonempty_chunks)

text \<open>
  The scenario of the specification: flight \<open>F1\<close>, output directory \<open>/tmp\<close> and the body
  \<open>NCDATA\<close>, with \<open>/tmp/F1.nc\<close> designating file 7. That file holds exactly \<open>NCDATA\<close>, also
  when the body arrives in two chunks with an empty one between them after a device
  flow; and a path with a NUL character is refused.
\<close>

theorem download_200_writes_body_witness:
  "downloadOneFlight ''F1'' ''/tmp'' False
     \<lparr>typed = ''tok123'', device_reply = device_ok, token_replies = always token_ok,
      service_reply = \<lparr>status_code = 200, rtext = ''NCDATA'', rjson = None,
                        iter_content = [''NCDATA'']\<rparr>,
      open_wb = (\<lambda>path. if path = ''/tmp/F1.nc'' then Inr 7
                         else Inl (OSError ''FileNotFoundError''))\<rparr>
     Map.empty =
     Some ([Input ''Please fill your ENVRI-ID token :'',
            Get (SERVICE_URL @ ''/F1?level=2&format=netcdf&type=timeseries'')
              [(''Authorization'', ''Bearer tok123''), (''Accept'', ''application/octet-stream'')],
            Print [Lit ''File downloaded : /tmp/F1.nc'']],
           [7 \<mapsto> ''NCDATA''],
           Inr ())
   \<and> (\<exists>tr. downloadOneFlight ''F1'' ''/tmp'' True
          \<lparr>typed = [], device_reply = device_ok, token_replies = always token_ok,
           service_reply = \<lparr>status_code = 200, rtext = ''NCDATA'', rjson = None,
                             iter_content = [''NC'', [], ''DATA'']\<rparr>,
           open_wb = (\<lambda>path. if path = ''/tmp/F1.nc'' then Inr 7
                              else Inl (OSError ''FileNotFoundError''))\<rparr>
          Map.empty =
          Some (tr, [7 \<mapsto> ''NCDATA''], Inr ()))
   \<and> downloadOneFlight [CHR 0x00] ''/tmp'' False
       \<lparr>typed = ''tok123'', device_reply = device_ok, token_replies = always token_ok,
        service_reply = \<lparr>status_code = 200, rtext = ''NCDATA'', rjson = None,
                          iter_content = [''NCDATA'']\<rparr>,
        open_wb = (\<lambda>path. Inr 7)\<rparr>
       Map.empty =
       Some ([Input ''Please fill your ENVRI-ID token :'',
              Get (SERVICE_URL @ ''/'' @ [CHR 0x00] @ ''?level=2&format=netcdf&type=timeseries'')
                [(''Authorization'', ''Bearer tok123''),
                 (''Accept'', ''application/octet-stream'')]],
             Map.empty,
             Inl ValueError)"
proof -
  let ?os = "\<lambda>path. if path = ''/tmp/F1.nc'' then Inr (7::nat)
                      else (Inl (OSError ''FileNotFoundError'') :: exn + nat)"
  let ?manual = "\<lparr>typed = ''tok123'', device_reply = device_ok, token_replies = always token_ok,
      service_reply = \<lparr>status_code = 200, rtext = ''NCDATA'', rjson = None,
                        iter_content = [''NCDATA'']\<rparr>,
      open_wb = ?os\<rparr>"
  let ?oauth = "\<lparr>typed = [], device_reply = device_ok, token_replies = always token_ok,
      service_reply = \<lparr>status_code = 200, rtext = ''NCDATA'', rjson = None,
                        iter_content = [''NC'', [], ''DATA'']\<rparr>,
      open_wb = ?os\<rparr>"
  let ?nul = "\<lparr>typed = ''tok123'', device_reply = device_ok, token_replies = always token_ok,
      service_reply = \<lparr>status_code = 200, rtext = ''NCDATA'', rjson = None,
                        iter_content = [''NCDATA'']\<rparr>,
      open_wb = (\<lambda>path. Inr (7::nat) :: exn + nat)\<rparr>"
  have "poll_once (JStr ''abc'') (JInt 5) (always token_ok 0) =
          ([token_request (JStr ''abc''),
            Print [Lit (check_mark @ '' Authentication successful!'')]],
           Return [(''Authorization'', ''Bearer '' @ ''tok123''),
                   (''Accept'', ''application/octet-stream'')])"
    by (rule poll_once_200 [where d = "[(''access_token'', JStr ''tok123'')]"])
       (simp_all add: token_ok_def always_def)
  note loop = poll_loop_Return [where srv = "always token_ok" and k = 0, OF this]
  have "\<exists>tr. getHeaderOAuth device_ok (always token_ok) =
                Some (tr, Inr [(''Authorization'', ''Bearer tok123''),
                               (''Accept'', ''application/octet-stream'')])"
    by (simp add: getHeaderOAuth_def device_authorization_def device_ok_def getitem_def loop)
  then obtain tr where tr: "getHeaderOAuth device_ok (always token_ok) =
                Some (tr, Inr [(''Authorization'', ''Bearer tok123''),
                               (''Accept'', ''application/octet-stream'')])"
    by blast
  from download_200_writes_body [where w = ?manual and flight = "''F1''"
         and output_dir = "''/tmp''" and files = Map.empty and f = 7]
  have first: "downloadOneFlight ''F1'' ''/tmp'' False ?manual Map.empty =
     Some ([Input ''Please fill your ENVRI-ID token :'',
            Get (SERVICE_URL @ ''/F1?level=2&format=netcdf&type=timeseries'')
              [(''Authorization'', ''Bearer tok123''), (''Accept'', ''application/octet-stream'')],
            Print [Lit ''File downloaded : /tmp/F1.nc'']],
           [7 \<mapsto> ''NCDATA''],
           Inr ())"
    by simp
  from download_200_writes_body [where w = ?oauth and flight = "''F1''"
         and output_dir = "''/tmp''" and files = Map.empty and f = 7 and tr = tr
         and headers = "[(''Authorization'', ''Bearer tok123''),
                         (''Accept'', ''application/octet-stream'')]"] tr
  have second: "downloadOneFlight ''F1'' ''/tmp'' True ?oauth Map.empty =
          Some (tr @ [Get (SERVICE_URL @ ''/F1?level=2&format=netcdf&type=timeseries'')
                        [(''Authorization'', ''Bearer tok123''),
                         (''Accept'', ''application/octet-stream'')],
                      Print [Lit ''File downloaded : /tmp/F1.nc'']],
                [7 \<mapsto> ''NCDATA''], Inr ())"
    by simp
  from download_200_writes_body [where w = ?nul and flight = "[CHR 0x00]"
         and output_dir = "''/tmp''" and files = Map.empty and e = ValueError]
  have third: "downloadOneFlight [CHR 0x00] ''/tmp'' False ?nul Map.empty =
       Some ([Input ''Please fill your ENVRI-ID token :'',
              Get (SERVICE_URL @ ''/'' @ [CHR 0x00] @ ''?level=2&format=netcdf&type=timeseries'')
                [(''Authorization'', ''Bearer tok123''),
                 (''Accept'', ''application/octet-stream'')]],
             Map.empty,
             Inl ValueError)"
    by (simp add: open_for_writing_def)
  from first second third show ?thesis by blast
qed

text \<open>
  C7. For every answer of the resource server with a status other than 200,
  \<open>downloadOneFlight\<close> leaves the files as they were, prints one message, made of
  \<open>Error\<close>, the status code in decimal, a colon and the text of the response, and
  returns normally. This holds with the token typed by the operator, and with the
  device flow whenever that flow returns a header.
\<close>

theorem download_error_is_printed:
  assumes "status_code (service_reply w) \<noteq> 200"
  shows "downloadOneFlight flight output_dir False w files =
           Some ([Input ''Please fill your ENVRI-ID token :'',
                  Get (SERVICE_URL @ ''/'' @ flight @ ''?level=2&format=netcdf&type=timeseries'')
                    [(''Authorization'', ''Bearer '' @ typed w),
                     (''Accept'', ''application/octet-stream'')],
                  Print [Lit (''Error '' @ str_int (status_code (service_reply w)) @ '': ''
                              @ rtext (service_reply w))]],
                 files,
                 Inr ())
       \<and> (getHeaderOAuth (device_reply w) (token_replies w) = Some (tr, Inr headers) \<longrightarrow>
          downloadOneFlight flight output_dir True w files =
           Some (tr @ [Get (SERVICE_URL @ ''/'' @ flight
                            @ ''?level=2&format=netcdf&type=timeseries'') headers,
                       Print [Lit (''Error '' @ str_int (status_code (service_reply w)) @ '': ''
                                   @ rtext (service_reply w))]],
                 files,
                 Inr ()))
       \<and> sublist (str_int (status_code (service_reply w)))
            (''Error '' @ str_int (status_code (service_reply w)) @ '': ''
             @ rtext (service_reply w))
       \<and> sublist (rtext (service_reply w))
            (''Error '' @ str_int (status_code (service_reply w)) @ '': ''
             @ rtext (service_reply w))"
proof -
  have "sublist (str_int (status_code (service_reply w)))
          (''Error '' @ str_int (status_code (service_reply w)) @ ('': ''
             @ rtext (service_reply w)))"
    by (rule sublist_appendI)
  moreover have "sublist (rtext (service_reply w))
          ((''Error '' @ str_int (status_code (service_reply w)) @ '': '')
             @ rtext (service_reply w) @ [])"
    by (rule sublist_appendI)
  ultimately show ?thesis
    using assms by (simp add: downloadOneFlight_def getHeader_def Let_def)
qed

text \<open>
  The scenario of the specification: the resource server answers 404 with the text
  \<open>not found\<close>. No file appears and the message is \<open>Error 404: not found\<close>, with either
  way of obtaining the header.
\<close>

theorem download_error_is_printed_witness:
  "downloadOneFlight ''F1'' ''/tmp'' False
     \<lparr>typed = ''tok123'', device_reply = device_ok, token_replies = (\<lambda>k. token_ok),
      service_reply = \<lparr>status_code = 404, rtext = ''not found'', rjson = None,
                        iter_content = []\<rparr>,
      open_wb = (\<lambda>path. Inr 7)\<rparr>
     Map.empty =
     Some ([Input ''Please fill your ENVRI-ID token :'',
            Get (SERVICE_URL @ ''/F1?level=2&format=netcdf&type=timeseries'')
              [(''Authorization'', ''Bearer tok123''), (''Accept'', ''application/octet-stream'')],
            Print [Lit ''Error 404: not found'']],
           Map.empty,
           Inr ())
   \<and> (\<exists>tr. downloadOneFlight ''F1'' ''/tmp'' True
          \<lparr>typed = ''tok123'', device_reply = device_ok, token_replies = (\<lambda>k. token_ok),
           service_reply = \<lparr>status_code = 404, rtext = ''not found'', rjson = None,
                             iter_content = []\<rparr>,
           open_wb = (\<lambda>path. Inr 7)\<rparr>
          Map.empty =
          Some (tr @ [Get (SERVICE_URL @ ''/F1?level=2&format=netcdf&type=timeseries'')
                        [(''Authorization'', ''Bearer tok123''),
                         (''Accept'', ''application/octet-stream'')],
                      Print [Lit ''Error 404: not found'']],
                Map.empty, Inr ()))"
proof -
  let ?w = "\<lparr>typed = ''tok123'', device_reply = device_ok, token_replies = (\<lambda>k. token_ok),
      service_reply = \<lparr>status_code = 404, rtext = ''not found'', rjson = None,
                        iter_content = []\<rparr>,
      open_wb = (\<lambda>path. Inr (7::nat) :: exn + nat)\<rparr>"
  have digits: "str_int 404 = ''404''"
    by code_simp
  have "poll_once (JStr ''abc'') (JInt 5) ((\<lambda>k::nat. token_ok) 0) =
          ([token_request (JStr ''abc''),
            Print [Lit (check_mark @ '' Authentication successful!'')]],
           Return [(''Authorization'', ''Bearer '' @ ''tok123''),
                   (''Accept'', ''application/octet-stream'')])"
    by (rule poll_once_200 [where d = "[(''access_token'', JStr ''tok123'')]"])
       (simp_all add: token_ok_def)
  note loop = poll_loop_Return [where srv = "\<lambda>k. token_ok" and k = 0, OF this]
  have "\<exists>tr. getHeaderOAuth device_ok (\<lambda>k. token_ok) =
                Some (tr, Inr [(''Authorization'', ''Bearer tok123''),
                               (''Accept'', ''application/octet-stream'')])"
    by (simp add: getHeaderOAuth_def device_authorization_def device_ok_def getitem_def loop)
  then obtain tr where tr: "getHeaderOAuth device_ok (\<lambda>k. token_ok) =
                Some (tr, Inr [(''Authorization'', ''Bearer tok123''),
                               (''Accept'', ''application/octet-stream'')])"
    by blast
  from download_error_is_printed
         [where w = ?w and flight = "''F1''" and output_dir = "''/tmp''" and files = Map.empty
            and tr = tr
            and headers = "[(''Authorization'', ''Bearer tok123''),
                            (''Accept'', ''application/octet-stream'')]"]
       digits tr
  have "downloadOneFlight ''F1'' ''/tmp'' False ?w Map.empty =
     Some ([Input ''Please fill your ENVRI-ID token :'',
            Get (SERVICE_URL @ ''/F1?level=2&format=netcdf&type=timeseries'')
              [(''Authorization'', ''Bearer tok123''), (''Accept'', ''application/octet-stream'')],
            Print [Lit ''Error 404: not found'']],
           Map.empty,
           Inr ())
    \<and> downloadOneFlight ''F1'' ''/tmp'' True ?w Map.empty =
          Some (tr @ [Get (SERVICE_URL @ ''/F1?level=2&format=netcdf&type=timeseries'')
                        [(''Authorization'', ''Bearer tok123''),
                         (''Accept'', ''application/octet-stream'')],
                      Print [Lit ''Error 404: not found'']],
                Map.empty, Inr ())"
    by simp
  then show ?thesis by blast
qed

end
